theory Spec2Isabelle
  imports Complex_Main
begin

section \<open>Data model\<close>

text \<open>
  The TypeScript interfaces of the domain model become records. A JavaScript \<open>number\<close>
  is modelled as a \<open>real\<close>, a \<open>Date\<close> as its integer time value, a \<open>string\<close> as a
  \<open>string\<close>. An optional field (\<open>f?: T | null\<close>) has three run-time shapes, which
  strict equality \<open>===\<close> tells apart: the key is absent or \<open>undefined\<close>, it is
  \<open>null\<close>, or it holds a value.
\<close>

datatype 'a optional = Undefined | Null | Val 'a

type_synonym Date = int

datatype PaymentMethod = CASH_ON_DELIVERY | Aba | TrueMoney | BANK

record Item =
  id :: string
  name :: string
  khmerName :: "string optional"
  supplier :: string
  measureUnit :: "string optional"
  unitPrice :: "real optional"
  lastOrdered :: "string optional"
  orderCount :: "real optional"
  lastHeld :: "string optional"

record Supplier =
  id :: string
  name :: string
  contact :: "string optional"
  telegramId :: "string optional"
  defaultPaymentMethod :: "PaymentMethod optional"

text \<open>
  \<open>PendingOrderItem\<close> is \<open>OrderItem\<close> without the \<open>storeTag\<close> key. As the key is
  optional in \<open>OrderItem\<close>, and \<open>completeOrder\<close> stores the cart's own lines in a
  \<open>CompletedOrder\<close>, both are the same record; a line without the key has
  \<open>storeTag = Undefined\<close>.
\<close>

record OrderItem =
  item :: Item
  quantity :: real
  storeTag :: "string optional"
  isNewItem :: "bool optional"

type_synonym PendingOrderItem = OrderItem

record PendingOrder =
  id :: string
  supplier :: string
  items :: "PendingOrderItem list"
  status :: "string optional"
  storeTag :: "string optional"
  paymentMethod :: "PaymentMethod optional"
  contactPerson :: "string optional"
  "notes" :: "string optional"
  invoiceUrl :: "string optional"
  amount :: "real optional"
  isReceived :: "bool optional"
  isPaid :: "bool optional"
  completedAt :: "Date optional"
  createdAt :: Date
  updatedAt :: "Date optional"

text \<open>\<open>Omit<PendingOrder, 'id' | 'createdAt' | 'updatedAt'>\<close>, the argument of \<open>addPendingOrder\<close>.\<close>

record PendingOrderDraft =
  supplier :: string
  items :: "PendingOrderItem list"
  status :: "string optional"
  storeTag :: "string optional"
  paymentMethod :: "PaymentMethod optional"
  contactPerson :: "string optional"
  "notes" :: "string optional"
  invoiceUrl :: "string optional"
  amount :: "real optional"
  isReceived :: "bool optional"
  isPaid :: "bool optional"
  completedAt :: "Date optional"

text \<open>
  \<open>Partial<PendingOrder>\<close>, the argument of \<open>updatePendingOrder\<close>: \<open>None\<close> is a key
  that the object does not have, \<open>Some v\<close> a key that it has with the value \<open>v\<close>.
\<close>

record PendingOrderPartial =
  id :: "string option"
  supplier :: "string option"
  items :: "PendingOrderItem list option"
  status :: "string optional option"
  storeTag :: "string optional option"
  paymentMethod :: "PaymentMethod optional option"
  contactPerson :: "string optional option"
  "notes" :: "string optional option"
  invoiceUrl :: "string optional option"
  amount :: "real optional option"
  isReceived :: "bool optional option"
  isPaid :: "bool optional option"
  completedAt :: "Date optional option"
  createdAt :: "Date option"
  updatedAt :: "Date optional option"

record CompletedOrder =
  id :: string
  items :: "PendingOrderItem list"
  supplier :: string
  amount :: "real optional"
  invoiceUrl :: "string optional"
  paymentMethod :: "PaymentMethod optional"
  contactPerson :: "string optional"
  "notes" :: "string optional"
  isReceived :: "bool optional"
  isPaid :: "bool optional"
  completedAt :: Date
  createdAt :: Date
  updatedAt :: "Date optional"

record CurrentOrderMetadata =
  paymentMethod :: "PaymentMethod optional"
  store :: "string optional"

record CurrentOrderMetadataPartial =
  paymentMethod :: "PaymentMethod optional option"
  store :: "string optional option"

record Store =
  id :: string
  name :: string
  tag :: string
  isActive :: bool

section \<open>The application state store\<close>

text \<open>
  The six \<open>useState\<close> cells of \<open>AppProvider\<close> that hold the collections. An operation
  that calls a setter with an updater function (\<open>setItems(prev => ...)\<close>) is a function
  from the state to the new state. An operation that also reads a cell through its
  closure (\<open>completeOrder\<close>, \<open>addPendingOrder\<close>, \<open>exportData\<close>) takes two states: the
  state \<open>r\<close> of the render that created the closure, and the state \<open>s\<close> that its
  setters update. The two are the same when the operation is called from the latest
  render; they differ when an earlier call from the same render has already updated a
  cell, as in \<open>clearOrder(); completeOrder()\<close>.
\<close>

record AppState =
  items :: "Item list"
  suppliers :: "Supplier list"
  currentOrder :: "OrderItem list"
  currentOrderMetadata :: CurrentOrderMetadata
  completedOrders :: "CompletedOrder list"
  pendingOrders :: "PendingOrder list"

definition defaultMetadata :: CurrentOrderMetadata where
  "defaultMetadata =
     \<lparr>CurrentOrderMetadata.paymentMethod = Val CASH_ON_DELIVERY, store = Undefined\<rparr>"

text \<open>The initial values of the six cells.\<close>

definition initialState :: AppState where
  "initialState =
     \<lparr>AppState.items = [], suppliers = [], currentOrder = [],
      currentOrderMetadata = defaultMetadata, completedOrders = [], pendingOrders = []\<rparr>"

subsection \<open>The cart\<close>

text \<open>The test \<open>oi.item.id === itemId && oi.storeTag === storeTag\<close> of the cart operations.\<close>

definition sameLine :: "string \<Rightarrow> string optional \<Rightarrow> OrderItem \<Rightarrow> bool" where
  "sameLine itemId stag oi \<longleftrightarrow>
     Item.id (item oi) = itemId \<and> OrderItem.storeTag oi = stag"

definition addToOrder :: "Item \<Rightarrow> real \<Rightarrow> string optional \<Rightarrow> AppState \<Rightarrow> AppState" where
  "addToOrder itm qty stag s =
     s\<lparr>currentOrder :=
         (let prev = currentOrder s in
          case find (sameLine (Item.id itm) stag) prev of
            Some existing \<Rightarrow>
              map (\<lambda>oi. if sameLine (Item.id itm) stag oi
                         then oi\<lparr>quantity := quantity oi + qty\<rparr> else oi) prev
          | None \<Rightarrow>
              prev @ [\<lparr>item = itm, quantity = qty, OrderItem.storeTag = stag,
                       isNewItem = Undefined\<rparr>])\<rparr>"

definition updateOrderItem :: "string \<Rightarrow> real \<Rightarrow> string optional \<Rightarrow> AppState \<Rightarrow> AppState" where
  "updateOrderItem itemId qty stag s =
     s\<lparr>currentOrder :=
         map (\<lambda>oi. if sameLine itemId stag oi then oi\<lparr>quantity := qty\<rparr> else oi)
           (currentOrder s)\<rparr>"

definition removeFromOrder :: "string \<Rightarrow> string optional \<Rightarrow> AppState \<Rightarrow> AppState" where
  "removeFromOrder itemId stag s =
     s\<lparr>currentOrder := filter (\<lambda>oi. \<not> sameLine itemId stag oi) (currentOrder s)\<rparr>"

definition updateOrderMetadata :: "CurrentOrderMetadataPartial \<Rightarrow> AppState \<Rightarrow> AppState" where
  "updateOrderMetadata metadata s =
     s\<lparr>currentOrderMetadata :=
         (let prev = currentOrderMetadata s in
          \<lparr>CurrentOrderMetadata.paymentMethod =
             (case CurrentOrderMetadataPartial.paymentMethod metadata of
                None \<Rightarrow> CurrentOrderMetadata.paymentMethod prev | Some v \<Rightarrow> v),
           store =
             (case CurrentOrderMetadataPartial.store metadata of
                None \<Rightarrow> CurrentOrderMetadata.store prev | Some v \<Rightarrow> v)\<rparr>)\<rparr>"

definition clearOrder :: "AppState \<Rightarrow> AppState" where
  "clearOrder s = s\<lparr>currentOrder := [], currentOrderMetadata := defaultMetadata\<rparr>"

text \<open>\<open>a || b\<close> on strings: the empty string is the only falsy one.\<close>

definition orElse :: "string \<Rightarrow> string \<Rightarrow> string" where
  "orElse a b = (if a = [] then b else a)"

text \<open>
  \<open>Array.from(new Set(currentOrder.map(oi => oi.storeTag).filter(Boolean)))\<close>: the
  distinct truthy store tags, in the order of their first occurrence. \<open>completeOrder\<close>
  computes the list and does not use it.
\<close>

definition truthyTag :: "string optional \<Rightarrow> bool" where
  "truthyTag t = (case t of Val v \<Rightarrow> v \<noteq> [] | _ \<Rightarrow> False)"

definition storeTagsOf :: "OrderItem list \<Rightarrow> string optional list" where
  "storeTagsOf cart = rev (remdups (rev (filter truthyTag (map OrderItem.storeTag cart))))"

text \<open>
  \<open>nid\<close> is the value of \<open>nanoid()\<close>, \<open>t1\<close> and \<open>t2\<close> those of the two \<open>new Date()\<close>;
  \<open>r\<close> is the state that the closure reads its \<open>currentOrder\<close> from.
\<close>

definition completeOrder :: "string \<Rightarrow> Date \<Rightarrow> Date \<Rightarrow> AppState \<Rightarrow> AppState \<Rightarrow> AppState" where
  "completeOrder nid t1 t2 r s =
     (if length (currentOrder r) = 0 then s
      else
        let storeTags = storeTagsOf (currentOrder r);
            completedOrder =
              \<lparr>CompletedOrder.id = nid,
               CompletedOrder.items = currentOrder r,
               CompletedOrder.supplier =
                 (case currentOrder r of
                    [] \<Rightarrow> []
                  | oi # _ \<Rightarrow> orElse (Item.supplier (item oi)) []),
               CompletedOrder.amount = Undefined,
               CompletedOrder.invoiceUrl = Undefined,
               CompletedOrder.paymentMethod = Undefined,
               CompletedOrder.contactPerson = Undefined,
               CompletedOrder.notes = Undefined,
               CompletedOrder.isReceived = Undefined,
               CompletedOrder.isPaid = Undefined,
               CompletedOrder.completedAt = t1,
               CompletedOrder.createdAt = t2,
               CompletedOrder.updatedAt = Undefined\<rparr>
        in s\<lparr>completedOrders := completedOrders s @ [completedOrder],
             currentOrder := [],
             currentOrderMetadata := defaultMetadata\<rparr>)"

subsection \<open>Items\<close>

text \<open>
  The remote store answers a delete with an object whose \<open>error\<close> field is set when the
  call failed. \<open>SupabaseSync.deleteItem\<close> awaits the answer and throws the error; it has
  no access to the cells of the state store. The parameter \<open>remoteDelete\<close> is the answer
  of \<open>supabase.from('items').delete().eq('id', itemId)\<close>.
\<close>

datatype RemoteError = RemoteError string

definition SupabaseSync_deleteItem ::
    "string \<Rightarrow> (string \<Rightarrow> RemoteError option) \<Rightarrow> RemoteError + unit" where
  "SupabaseSync_deleteItem itemId remoteDelete =
     (case remoteDelete itemId of Some err \<Rightarrow> Inl err | None \<Rightarrow> Inr ())"

text \<open>
  \<open>deleteItem\<close> first removes the item from the cell, then starts the remote delete, whose
  rejection goes to \<open>console.error\<close>: the result is the new state and what was logged.
\<close>

definition deleteItem ::
    "string \<Rightarrow> (string \<Rightarrow> RemoteError option) \<Rightarrow> AppState \<Rightarrow> AppState \<times> RemoteError list" where
  "deleteItem itemId remoteDelete s =
     (let s' = s\<lparr>AppState.items := filter (\<lambda>i. Item.id i \<noteq> itemId) (AppState.items s)\<rparr>
      in case SupabaseSync_deleteItem itemId remoteDelete of
           Inl err \<Rightarrow> (s', [err])
         | Inr _ \<Rightarrow> (s', []))"

subsection \<open>Pending orders\<close>

text \<open>\<open>Array.prototype.findIndex\<close>: the index of the first match, or \<open>-1\<close>.\<close>

fun findIndex :: "('a \<Rightarrow> bool) \<Rightarrow> 'a list \<Rightarrow> int" where
  "findIndex P [] = -1"
| "findIndex P (x # xs) =
     (if P x then 0 else (let i = findIndex P xs in if i \<ge> 0 then i + 1 else -1))"

text \<open>\<open>{ ...order, ...orderUpdate }\<close>: every key that the update has overwrites the order's.\<close>

definition pick :: "'a option \<Rightarrow> 'a \<Rightarrow> 'a" where
  "pick u v = (case u of None \<Rightarrow> v | Some w \<Rightarrow> w)"

definition spread :: "PendingOrder \<Rightarrow> PendingOrderPartial \<Rightarrow> PendingOrder" where
  "spread po u =
     \<lparr>PendingOrder.id = pick (PendingOrderPartial.id u) (PendingOrder.id po),
      PendingOrder.supplier = pick (PendingOrderPartial.supplier u) (PendingOrder.supplier po),
      PendingOrder.items = pick (PendingOrderPartial.items u) (PendingOrder.items po),
      PendingOrder.status = pick (PendingOrderPartial.status u) (PendingOrder.status po),
      PendingOrder.storeTag = pick (PendingOrderPartial.storeTag u) (PendingOrder.storeTag po),
      PendingOrder.paymentMethod =
        pick (PendingOrderPartial.paymentMethod u) (PendingOrder.paymentMethod po),
      PendingOrder.contactPerson =
        pick (PendingOrderPartial.contactPerson u) (PendingOrder.contactPerson po),
      PendingOrder.notes = pick (PendingOrderPartial.notes u) (PendingOrder.notes po),
      PendingOrder.invoiceUrl = pick (PendingOrderPartial.invoiceUrl u) (PendingOrder.invoiceUrl po),
      PendingOrder.amount = pick (PendingOrderPartial.amount u) (PendingOrder.amount po),
      PendingOrder.isReceived = pick (PendingOrderPartial.isReceived u) (PendingOrder.isReceived po),
      PendingOrder.isPaid = pick (PendingOrderPartial.isPaid u) (PendingOrder.isPaid po),
      PendingOrder.completedAt =
        pick (PendingOrderPartial.completedAt u) (PendingOrder.completedAt po),
      PendingOrder.createdAt = pick (PendingOrderPartial.createdAt u) (PendingOrder.createdAt po),
      PendingOrder.updatedAt = pick (PendingOrderPartial.updatedAt u) (PendingOrder.updatedAt po)\<rparr>"

text \<open>The object literal \<open>{ items: mergedItems, updatedAt: new Date() }\<close>.\<close>

definition itemsUpdate :: "PendingOrderItem list \<Rightarrow> Date \<Rightarrow> PendingOrderPartial" where
  "itemsUpdate mergedItems t =
     \<lparr>PendingOrderPartial.id = None,
      PendingOrderPartial.supplier = None,
      PendingOrderPartial.items = Some mergedItems,
      PendingOrderPartial.status = None,
      PendingOrderPartial.storeTag = None,
      PendingOrderPartial.paymentMethod = None,
      PendingOrderPartial.contactPerson = None,
      PendingOrderPartial.notes = None,
      PendingOrderPartial.invoiceUrl = None,
      PendingOrderPartial.amount = None,
      PendingOrderPartial.isReceived = None,
      PendingOrderPartial.isPaid = None,
      PendingOrderPartial.completedAt = None,
      PendingOrderPartial.createdAt = None,
      PendingOrderPartial.updatedAt = Some (Val t)\<rparr>"

text \<open>\<open>now\<close> is the value of the \<open>new Date()\<close> in the updater.\<close>

definition updatePendingOrder ::
    "string \<Rightarrow> PendingOrderPartial \<Rightarrow> Date \<Rightarrow> AppState \<Rightarrow> AppState" where
  "updatePendingOrder oid orderUpdate now s =
     s\<lparr>pendingOrders :=
         map (\<lambda>order. if PendingOrder.id order = oid
                       then (spread order orderUpdate)\<lparr>PendingOrder.updatedAt := Val now\<rparr>
                       else order)
           (pendingOrders s)\<rparr>"

text \<open>The test of \<open>pendingOrders.find\<close> in \<open>addPendingOrder\<close>.\<close>

definition openFor :: "PendingOrderDraft \<Rightarrow> PendingOrder \<Rightarrow> bool" where
  "openFor order po \<longleftrightarrow>
     PendingOrder.supplier po = PendingOrderDraft.supplier order \<and>
     PendingOrder.storeTag po = PendingOrderDraft.storeTag order \<and>
     (PendingOrder.status po = Val ''pending'' \<or> PendingOrder.status po = Val ''processing'')"

text \<open>One round of the \<open>forEach\<close> over the draft's lines, on the array \<open>mergedItems\<close>.\<close>

definition mergeItem :: "PendingOrderItem list \<Rightarrow> PendingOrderItem \<Rightarrow> PendingOrderItem list" where
  "mergeItem mergedItems newItem =
     (let existingItemIndex =
            findIndex (\<lambda>mi. Item.id (item mi) = Item.id (item newItem)) mergedItems
      in if existingItemIndex \<ge> 0
         then mergedItems[nat existingItemIndex :=
                (mergedItems ! nat existingItemIndex)
                  \<lparr>quantity := quantity (mergedItems ! nat existingItemIndex) + quantity newItem\<rparr>]
         else mergedItems @ [newItem])"

definition mergeItems :: "PendingOrderItem list \<Rightarrow> PendingOrderItem list \<Rightarrow> PendingOrderItem list" where
  "mergeItems existingItems newItems = foldl mergeItem existingItems newItems"

text \<open>
  Two readings of a list of lines, in which the merge is stated below: the item ids of
  the lines, in order, and the index of the first line of an item (the length of the
  list when the item has no line).
\<close>

definition lineIds :: "PendingOrderItem list \<Rightarrow> string list" where
  "lineIds ls = map (\<lambda>l. Item.id (item l)) ls"

definition firstLineOf :: "string \<Rightarrow> PendingOrderItem list \<Rightarrow> nat" where
  "firstLineOf k ls = length (takeWhile (\<lambda>l. Item.id (item l) \<noteq> k) ls)"

text \<open>\<open>{ ...order, id: nanoid(), createdAt: new Date(), updatedAt: new Date() }\<close>.\<close>

definition newPendingOrder :: "PendingOrderDraft \<Rightarrow> string \<Rightarrow> Date \<Rightarrow> Date \<Rightarrow> PendingOrder" where
  "newPendingOrder order nid t1 t2 =
     \<lparr>PendingOrder.id = nid,
      PendingOrder.supplier = PendingOrderDraft.supplier order,
      PendingOrder.items = PendingOrderDraft.items order,
      PendingOrder.status = PendingOrderDraft.status order,
      PendingOrder.storeTag = PendingOrderDraft.storeTag order,
      PendingOrder.paymentMethod = PendingOrderDraft.paymentMethod order,
      PendingOrder.contactPerson = PendingOrderDraft.contactPerson order,
      PendingOrder.notes = PendingOrderDraft.notes order,
      PendingOrder.invoiceUrl = PendingOrderDraft.invoiceUrl order,
      PendingOrder.amount = PendingOrderDraft.amount order,
      PendingOrder.isReceived = PendingOrderDraft.isReceived order,
      PendingOrder.isPaid = PendingOrderDraft.isPaid order,
      PendingOrder.completedAt = PendingOrderDraft.completedAt order,
      PendingOrder.createdAt = t1,
      PendingOrder.updatedAt = Val t2\<rparr>"

text \<open>
  \<open>addPendingOrder\<close> looks for the open order in the \<open>pendingOrders\<close> of its closure
  (\<open>r\<close>) and updates the cell (\<open>s\<close>); it returns the order's id. \<open>nid\<close> is the value of
  \<open>nanoid()\<close>; \<open>t1\<close> and \<open>t2\<close> are the values of the two \<open>new Date()\<close> that either
  branch evaluates, in this order.
\<close>

definition addPendingOrder ::
    "string \<Rightarrow> Date \<Rightarrow> Date \<Rightarrow> PendingOrderDraft \<Rightarrow> AppState \<Rightarrow> AppState \<Rightarrow> string \<times> AppState" where
  "addPendingOrder nid t1 t2 order r s =
     (case find (openFor order) (pendingOrders r) of
        Some existingOrder \<Rightarrow>
          (let mergedItems =
                 mergeItems (PendingOrder.items existingOrder) (PendingOrderDraft.items order)
           in (PendingOrder.id existingOrder,
               updatePendingOrder (PendingOrder.id existingOrder)
                 (itemsUpdate mergedItems t1) t2 s))
      | None \<Rightarrow>
          (let newOrder = newPendingOrder order nid t1 t2
           in (PendingOrder.id newOrder,
               s\<lparr>pendingOrders := pendingOrders s @ [newOrder]\<rparr>)))"

subsection \<open>Export and import\<close>

text \<open>
  \<open>StorageData\<close> has five optional keys. The interface declares the argument of
  \<open>importData\<close> as \<open>any\<close>, and \<open>exportData\<close> returns an object with the two further keys
  \<open>currentOrder\<close> and \<open>currentOrderMetadata\<close>: the record \<open>Snapshot\<close> extends
  \<open>StorageData\<close> by them, and \<open>importData\<close> accepts every extension of \<open>StorageData\<close>.
  \<open>None\<close> is a key that is absent (or holds a falsy value); an array, also an empty one,
  is truthy.
\<close>

record StorageData =
  items :: "Item list option"
  suppliers :: "Supplier list option"
  completedOrders :: "CompletedOrder list option"
  pendingOrders :: "PendingOrder list option"
  stores :: "Store list option"

record Snapshot = StorageData +
  currentOrder :: "OrderItem list option"
  currentOrderMetadata :: "CurrentOrderMetadata option"

definition exportData :: "AppState \<Rightarrow> Snapshot" where
  "exportData r =
     \<lparr>StorageData.items = Some (AppState.items r),
      StorageData.suppliers = Some (AppState.suppliers r),
      StorageData.completedOrders = Some (AppState.completedOrders r),
      StorageData.pendingOrders = Some (AppState.pendingOrders r),
      StorageData.stores = None,
      Snapshot.currentOrder = Some (AppState.currentOrder r),
      Snapshot.currentOrderMetadata = Some (AppState.currentOrderMetadata r)\<rparr>"

definition importData :: "'a StorageData_scheme \<Rightarrow> AppState \<Rightarrow> AppState" where
  "importData data s =
     (let s1 = (case StorageData.items data of
                  Some v \<Rightarrow> s\<lparr>AppState.items := v\<rparr> | None \<Rightarrow> s);
          s2 = (case StorageData.suppliers data of
                  Some v \<Rightarrow> s1\<lparr>AppState.suppliers := v\<rparr> | None \<Rightarrow> s1);
          s3 = (case StorageData.completedOrders data of
                  Some v \<Rightarrow> s2\<lparr>AppState.completedOrders := v\<rparr> | None \<Rightarrow> s2);
          s4 = (case StorageData.pendingOrders data of
                  Some v \<Rightarrow> s3\<lparr>AppState.pendingOrders := v\<rparr> | None \<Rightarrow> s3)
      in s4)"

text \<open>The same input without any extra key.\<close>

definition onlyItems :: "Item list \<Rightarrow> StorageData" where
  "onlyItems v =
     \<lparr>StorageData.items = Some v, StorageData.suppliers = None,
      StorageData.completedOrders = None, StorageData.pendingOrders = None,
      StorageData.stores = None\<rparr>"

section \<open>The remote sync adapter: the in-flight guard\<close>

text \<open>
  The class \<open>SupabaseSync\<close> has one static field, \<open>syncInProgress\<close>. Each of
  \<open>syncItems\<close>, \<open>syncSuppliers\<close>, \<open>syncPendingOrders\<close> and \<open>syncCurrentOrder\<close> starts with
  \<open>if (this.syncInProgress) return; this.syncInProgress = true;\<close>, then runs its remote
  writes inside \<open>try\<close>, and ends with \<open>finally { this.syncInProgress = false; }\<close>.
  JavaScript runs the code between two \<open>await\<close>s without interruption. A call that
  reaches an \<open>await\<close> is therefore two atomic steps of the class: entering (up to the
  first \<open>await\<close>) and settling (the \<open>finally\<close> block, after the last remote write or the
  first error); other calls can be made in between. \<open>syncItems\<close>, \<open>syncSuppliers\<close> and
  \<open>syncPendingOrders\<close> await one upsert for each element of their array: with an empty
  array the loop body never runs, there is no \<open>await\<close>, and the flag is set and cleared in
  the one step of the call. \<open>syncCurrentOrder\<close> always awaits its \<open>select\<close>. The state
  also records, for the sake of the properties below, which calls are in flight and
  which were dropped.
\<close>

datatype category = Items | Suppliers | PendingOrders | CurrentOrder

record SupabaseSync =
  syncInProgress :: bool
  inFlight :: "category list"
  dropped :: "category list"

definition syncIdle :: SupabaseSync where
  "syncIdle = \<lparr>syncInProgress = False, inFlight = [], dropped = []\<rparr>"

text \<open>
  The first step of a call of category \<open>c\<close>; \<open>awaits\<close> tells whether its body reaches
  an \<open>await\<close>.
\<close>

definition guarded :: "category \<Rightarrow> bool \<Rightarrow> SupabaseSync \<Rightarrow> SupabaseSync" where
  "guarded c awaits st =
     (if syncInProgress st then st\<lparr>dropped := dropped st @ [c]\<rparr>
      else if awaits then st\<lparr>syncInProgress := True, inFlight := inFlight st @ [c]\<rparr>
      else (st\<lparr>syncInProgress := True\<rparr>)\<lparr>syncInProgress := False\<rparr>)"

definition syncItems :: "Item list \<Rightarrow> SupabaseSync \<Rightarrow> SupabaseSync" where
  "syncItems its st = guarded Items (its \<noteq> []) st"

definition syncSuppliers :: "Supplier list \<Rightarrow> SupabaseSync \<Rightarrow> SupabaseSync" where
  "syncSuppliers sups st = guarded Suppliers (sups \<noteq> []) st"

definition syncPendingOrders :: "PendingOrder list \<Rightarrow> SupabaseSync \<Rightarrow> SupabaseSync" where
  "syncPendingOrders orders st = guarded PendingOrders (orders \<noteq> []) st"

definition syncCurrentOrder ::
    "OrderItem list \<Rightarrow> CurrentOrderMetadata \<Rightarrow> SupabaseSync \<Rightarrow> SupabaseSync" where
  "syncCurrentOrder its metadata st = guarded CurrentOrder True st"

text \<open>The \<open>finally\<close> block of a call of category \<open>c\<close> that is in flight.\<close>

definition settle :: "category \<Rightarrow> SupabaseSync \<Rightarrow> SupabaseSync" where
  "settle c st =
     (if c \<in> set (inFlight st)
      then st\<lparr>syncInProgress := False, inFlight := remove1 c (inFlight st)\<rparr>
      else st)"

datatype event =
    SyncItems "Item list"
  | SyncSuppliers "Supplier list"
  | SyncPendingOrders "PendingOrder list"
  | SyncCurrentOrder "OrderItem list" CurrentOrderMetadata
  | Settle category

fun step :: "SupabaseSync \<Rightarrow> event \<Rightarrow> SupabaseSync" where
  "step st (SyncItems its) = syncItems its st"
| "step st (SyncSuppliers sups) = syncSuppliers sups st"
| "step st (SyncPendingOrders orders) = syncPendingOrders orders st"
| "step st (SyncCurrentOrder its metadata) = syncCurrentOrder its metadata st"
| "step st (Settle c) = settle c st"

definition run :: "event list \<Rightarrow> SupabaseSync" where
  "run evs = foldl step syncIdle evs"

text \<open>The flag is set exactly while a call is in flight, and at most one call is.\<close>

definition guardInv :: "SupabaseSync \<Rightarrow> bool" where
  "guardInv st \<longleftrightarrow>
     (syncInProgress st \<longleftrightarrow> inFlight st \<noteq> []) \<and> length (inFlight st) \<le> 1"

section \<open>Readings used in the properties\<close>

text \<open>Every line of the cart has a positive quantity.\<close>

definition cartPositive :: "AppState \<Rightarrow> bool" where
  "cartPositive s = list_all (\<lambda>oi. 0 < quantity oi) (AppState.currentOrder s)"

section \<open>Sample data\<close>

definition apple :: Item where
  "apple =
     \<lparr>Item.id = ''apple'', Item.name = ''Apple'', khmerName = Undefined,
      Item.supplier = ''Fruit Co'', measureUnit = Val ''kg'', unitPrice = Val 2,
      lastOrdered = Undefined, orderCount = Undefined, lastHeld = Undefined\<rparr>"

definition appleLine :: "real \<Rightarrow> OrderItem" where
  "appleLine q =
     \<lparr>item = apple, quantity = q, OrderItem.storeTag = Val ''wb'', isNewItem = Undefined\<rparr>"

definition rice :: Item where
  "rice =
     \<lparr>Item.id = ''rice'', Item.name = ''Rice'', khmerName = Undefined,
      Item.supplier = ''Grain Co'', measureUnit = Val ''bag'', unitPrice = Undefined,
      lastOrdered = Undefined, orderCount = Undefined, lastHeld = Undefined\<rparr>"

definition pendingLine :: "Item \<Rightarrow> real \<Rightarrow> PendingOrderItem" where
  "pendingLine itm q =
     \<lparr>item = itm, quantity = q, OrderItem.storeTag = Undefined, isNewItem = Undefined\<rparr>"

definition fruitCo :: Supplier where
  "fruitCo =
     \<lparr>Supplier.id = ''s1'', Supplier.name = ''Fruit Co'', contact = Undefined,
      telegramId = Undefined, defaultPaymentMethod = Val Aba\<rparr>"

definition fruitDraft :: "PendingOrderItem list \<Rightarrow> PendingOrderDraft" where
  "fruitDraft ls =
     \<lparr>PendingOrderDraft.supplier = ''Fruit Co'',
      PendingOrderDraft.items = ls,
      PendingOrderDraft.status = Val ''pending'',
      PendingOrderDraft.storeTag = Val ''wb'',
      PendingOrderDraft.paymentMethod = Undefined,
      PendingOrderDraft.contactPerson = Undefined,
      PendingOrderDraft.notes = Undefined,
      PendingOrderDraft.invoiceUrl = Undefined,
      PendingOrderDraft.amount = Undefined,
      PendingOrderDraft.isReceived = Undefined,
      PendingOrderDraft.isPaid = Undefined,
      PendingOrderDraft.completedAt = Undefined\<rparr>"

text \<open>A state with one item, one supplier, a cart of one line and a store in its metadata.\<close>

definition shopState :: AppState where
  "shopState =
     \<lparr>AppState.items = [apple], AppState.suppliers = [fruitCo],
      AppState.currentOrder = [appleLine 3],
      AppState.currentOrderMetadata =
        \<lparr>CurrentOrderMetadata.paymentMethod = Val Aba, store = Val ''wb''\<rparr>,
      AppState.completedOrders = [], AppState.pendingOrders = []\<rparr>"

text \<open>A remote store whose every delete fails.\<close>

definition failingDelete :: "string \<Rightarrow> RemoteError option" where
  "failingDelete k = Some (RemoteError ''network'')"

section \<open>Properties of the cart\<close>

lemma find_sameLine_None:
  "find (sameLine k stag) xs = None \<longleftrightarrow> (\<forall>oi \<in> set xs. \<not> sameLine k stag oi)"
  by (auto simp: find_None_iff)

lemma map_no_match:
  "\<forall>oi \<in> set xs. \<not> P oi \<Longrightarrow> map (\<lambda>oi. if P oi then f oi else oi) xs = xs"
  by (induction xs) simp_all

lemma addToOrder_absent:
  assumes "\<forall>oi \<in> set (AppState.currentOrder s). \<not> sameLine (Item.id itm) stag oi"
  shows "AppState.currentOrder (addToOrder itm qty stag s) =
           AppState.currentOrder s @ [\<lparr>item = itm, quantity = qty, OrderItem.storeTag = stag,
                               isNewItem = Undefined\<rparr>]"
  using assms by (simp add: addToOrder_def find_sameLine_None [symmetric])

lemma addToOrder_present:
  assumes "\<exists>oi \<in> set (AppState.currentOrder s). sameLine (Item.id itm) stag oi"
  shows "AppState.currentOrder (addToOrder itm qty stag s) =
           map (\<lambda>oi. if sameLine (Item.id itm) stag oi
                      then oi\<lparr>quantity := quantity oi + qty\<rparr> else oi) (AppState.currentOrder s)"
proof -
  from assms have "find (sameLine (Item.id itm) stag) (AppState.currentOrder s) \<noteq> None"
    by (auto simp: find_None_iff)
  then obtain e where "find (sameLine (Item.id itm) stag) (AppState.currentOrder s) = Some e"
    by blast
  then show ?thesis by (simp add: addToOrder_def)
qed

lemma addToOrder_others:
  "AppState.items (addToOrder itm qty stag s) = AppState.items s \<and>
   AppState.suppliers (addToOrder itm qty stag s) = AppState.suppliers s \<and>
   AppState.currentOrderMetadata (addToOrder itm qty stag s) = AppState.currentOrderMetadata s \<and>
   AppState.completedOrders (addToOrder itm qty stag s) = AppState.completedOrders s \<and>
   AppState.pendingOrders (addToOrder itm qty stag s) = AppState.pendingOrders s"
  by (simp add: addToOrder_def)

lemma addToOrder_twice_absent:
  assumes same: "Item.id itm2 = Item.id itm1"
    and absent: "\<forall>oi \<in> set (AppState.currentOrder s). \<not> sameLine (Item.id itm1) stag oi"
  shows "AppState.currentOrder (addToOrder itm2 q2 stag (addToOrder itm1 q1 stag s)) =
           AppState.currentOrder s @
             [\<lparr>item = itm1, quantity = q1 + q2, OrderItem.storeTag = stag, isNewItem = Undefined\<rparr>]"
proof -
  let ?l = "\<lparr>item = itm1, quantity = q1, OrderItem.storeTag = stag, isNewItem = Undefined\<rparr>"
  let ?s1 = "addToOrder itm1 q1 stag s"
  have c1: "AppState.currentOrder ?s1 = AppState.currentOrder s @ [?l]"
    using absent by (rule addToOrder_absent)
  have l: "sameLine (Item.id itm2) stag ?l"
    by (simp add: sameLine_def same)
  then have "\<exists>oi \<in> set (AppState.currentOrder ?s1). sameLine (Item.id itm2) stag oi"
    by (simp add: c1)
  then have "AppState.currentOrder (addToOrder itm2 q2 stag ?s1) =
      map (\<lambda>oi. if sameLine (Item.id itm2) stag oi
                 then oi\<lparr>quantity := quantity oi + q2\<rparr> else oi) (AppState.currentOrder ?s1)"
    by (rule addToOrder_present)
  also have "\<dots> = map (\<lambda>oi. if sameLine (Item.id itm2) stag oi
                 then oi\<lparr>quantity := quantity oi + q2\<rparr> else oi) (AppState.currentOrder s) @
               [?l\<lparr>quantity := q1 + q2\<rparr>]"
    using l by (simp add: c1)
  also have "map (\<lambda>oi. if sameLine (Item.id itm2) stag oi
                 then oi\<lparr>quantity := quantity oi + q2\<rparr> else oi) (AppState.currentOrder s)
             = AppState.currentOrder s"
    using absent by (intro map_no_match) (simp add: same)
  finally show ?thesis by simp
qed

lemma filter_sameLine_map:
  "filter (sameLine k stag) (map (\<lambda>oi. if sameLine k stag oi then oi\<lparr>quantity := f oi\<rparr> else oi) xs)
   = map (\<lambda>oi. oi\<lparr>quantity := f oi\<rparr>) (filter (sameLine k stag) xs)"
  by (induction xs) (simp_all add: sameLine_def)

text \<open>
  Claim C3, as the code has it. On a cart without a line for the pair (item id, store
  tag), one \<open>addToOrder\<close> appends exactly one line, and a second one for the same pair
  makes no further line: the cart then has exactly one line for the pair, whose quantity
  is the sum of the two added quantities. On a cart that already has a line for the pair,
  \<open>addToOrder\<close> adds no line and adds the quantity to every line of the pair.
\<close>

theorem addToOrder_merges_lines:
  assumes same: "Item.id itm2 = Item.id itm1"
  shows "((\<forall>oi \<in> set (AppState.currentOrder s). \<not> sameLine (Item.id itm1) stag oi) \<longrightarrow>
            AppState.currentOrder (addToOrder itm1 q1 stag s) =
              AppState.currentOrder s @
                [\<lparr>item = itm1, quantity = q1, OrderItem.storeTag = stag, isNewItem = Undefined\<rparr>] \<and>
            AppState.currentOrder (addToOrder itm2 q2 stag (addToOrder itm1 q1 stag s)) =
              AppState.currentOrder s @
                [\<lparr>item = itm1, quantity = q1 + q2, OrderItem.storeTag = stag,
                  isNewItem = Undefined\<rparr>] \<and>
            filter (sameLine (Item.id itm1) stag)
                (AppState.currentOrder (addToOrder itm2 q2 stag (addToOrder itm1 q1 stag s))) =
              [\<lparr>item = itm1, quantity = q1 + q2, OrderItem.storeTag = stag,
                isNewItem = Undefined\<rparr>]) \<and>
         ((\<exists>oi \<in> set (AppState.currentOrder s). sameLine (Item.id itm1) stag oi) \<longrightarrow>
            AppState.currentOrder (addToOrder itm1 q1 stag s) =
              map (\<lambda>oi. if sameLine (Item.id itm1) stag oi
                         then oi\<lparr>quantity := quantity oi + q1\<rparr> else oi)
                (AppState.currentOrder s) \<and>
            length (AppState.currentOrder (addToOrder itm1 q1 stag s)) =
              length (AppState.currentOrder s) \<and>
            filter (sameLine (Item.id itm1) stag) (AppState.currentOrder (addToOrder itm1 q1 stag s)) =
              map (\<lambda>oi. oi\<lparr>quantity := quantity oi + q1\<rparr>)
                (filter (sameLine (Item.id itm1) stag) (AppState.currentOrder s)))"
proof (intro conjI impI)
  assume absent: "\<forall>oi \<in> set (AppState.currentOrder s). \<not> sameLine (Item.id itm1) stag oi"
  show "AppState.currentOrder (addToOrder itm1 q1 stag s) =
          AppState.currentOrder s @
            [\<lparr>item = itm1, quantity = q1, OrderItem.storeTag = stag, isNewItem = Undefined\<rparr>]"
    using absent by (rule addToOrder_absent)
  show two: "AppState.currentOrder (addToOrder itm2 q2 stag (addToOrder itm1 q1 stag s)) =
          AppState.currentOrder s @
            [\<lparr>item = itm1, quantity = q1 + q2, OrderItem.storeTag = stag, isNewItem = Undefined\<rparr>]"
    using same absent by (rule addToOrder_twice_absent)
  have "filter (sameLine (Item.id itm1) stag) (AppState.currentOrder s) = []"
    using absent by (simp add: filter_empty_conv)
  then show "filter (sameLine (Item.id itm1) stag)
          (AppState.currentOrder (addToOrder itm2 q2 stag (addToOrder itm1 q1 stag s))) =
        [\<lparr>item = itm1, quantity = q1 + q2, OrderItem.storeTag = stag, isNewItem = Undefined\<rparr>]"
    by (simp add: two sameLine_def)
next
  assume present: "\<exists>oi \<in> set (AppState.currentOrder s). sameLine (Item.id itm1) stag oi"
  show m: "AppState.currentOrder (addToOrder itm1 q1 stag s) =
          map (\<lambda>oi. if sameLine (Item.id itm1) stag oi
                     then oi\<lparr>quantity := quantity oi + q1\<rparr> else oi)
            (AppState.currentOrder s)"
    using present by (rule addToOrder_present)
  show "length (AppState.currentOrder (addToOrder itm1 q1 stag s)) =
          length (AppState.currentOrder s)"
    by (simp add: m)
  show "filter (sameLine (Item.id itm1) stag) (AppState.currentOrder (addToOrder itm1 q1 stag s)) =
          map (\<lambda>oi. oi\<lparr>quantity := quantity oi + q1\<rparr>)
            (filter (sameLine (Item.id itm1) stag) (AppState.currentOrder s))"
    by (simp only: m filter_sameLine_map)
qed

theorem addToOrder_merges_lines_witness:
  "AppState.currentOrder (addToOrder apple 2 (Val ''wb'') (addToOrder apple 3 (Val ''wb'') initialState))
     = [appleLine 5] \<and>
   AppState.currentOrder
     (addToOrder apple 2 (Val ''wb'') (initialState\<lparr>AppState.currentOrder := [appleLine 1]\<rparr>))
     = [appleLine 3]"
  using addToOrder_merges_lines [of apple apple initialState "Val ''wb''" 3 2]
    addToOrder_merges_lines [of apple apple "initialState\<lparr>AppState.currentOrder := [appleLine 1]\<rparr>"
      "Val ''wb''" 2 2]
  by (simp add: initialState_def appleLine_def sameLine_def apple_def)

text \<open>
  Claim C3 as stated, for every cart: on a cart that holds one apple for store \<open>wb\<close>,
  adding 3 and then 2 gives one line of quantity 6, not the sum 5 of the two additions.
\<close>

theorem addToOrder_existing_line_counterexample:
  "map quantity (AppState.currentOrder
     (addToOrder apple 2 (Val ''wb'') (addToOrder apple 3 (Val ''wb'')
        (initialState\<lparr>AppState.currentOrder := [appleLine 1]\<rparr>)))) = [6] \<and>
   map quantity (AppState.currentOrder
     (addToOrder apple 2 (Val ''wb'') (addToOrder apple 3 (Val ''wb'')
        (initialState\<lparr>AppState.currentOrder := [appleLine 1]\<rparr>)))) \<noteq> [3 + 2]"
  by (simp add: addToOrder_def initialState_def appleLine_def sameLine_def apple_def)

text \<open>
  Claim C4. \<open>completeOrder\<close> reads the cart of the render \<open>r\<close> that it was created in.
  When that cart is not empty, then whatever the state \<open>s\<close> that the setters update,
  exactly one \<open>CompletedOrder\<close> is appended to \<open>completedOrders\<close>: it holds the lines of
  the cart that was read, and its supplier is the supplier of the item of the first of
  them. The cart is emptied and its metadata is reset to the payment method
  \<open>CASH ON DELIVERY\<close> alone. Items, suppliers and pending orders stay as they are.
\<close>

theorem completeOrder_nonempty:
  assumes "AppState.currentOrder r \<noteq> []"
  shows "\<exists>co. AppState.completedOrders (completeOrder nid t1 t2 r s) =
                 AppState.completedOrders s @ [co] \<and>
              CompletedOrder.id co = nid \<and>
              CompletedOrder.items co = AppState.currentOrder r \<and>
              CompletedOrder.supplier co = Item.supplier (item (hd (AppState.currentOrder r))) \<and>
              CompletedOrder.completedAt co = t1 \<and>
              CompletedOrder.createdAt co = t2 \<and>
              length (AppState.completedOrders (completeOrder nid t1 t2 r s)) =
                Suc (length (AppState.completedOrders s)) \<and>
              AppState.currentOrder (completeOrder nid t1 t2 r s) = [] \<and>
              AppState.currentOrderMetadata (completeOrder nid t1 t2 r s) =
                \<lparr>CurrentOrderMetadata.paymentMethod = Val CASH_ON_DELIVERY, store = Undefined\<rparr> \<and>
              AppState.items (completeOrder nid t1 t2 r s) = AppState.items s \<and>
              AppState.suppliers (completeOrder nid t1 t2 r s) = AppState.suppliers s \<and>
              AppState.pendingOrders (completeOrder nid t1 t2 r s) = AppState.pendingOrders s"
proof -
  from assms obtain oi rest where c: "AppState.currentOrder r = oi # rest"
    by (cases "AppState.currentOrder r") auto
  show ?thesis
    by (simp add: completeOrder_def c Let_def orElse_def defaultMetadata_def)
qed

theorem completeOrder_nonempty_witness:
  "AppState.currentOrder shopState \<noteq> [] \<and>
   (\<exists>co. AppState.completedOrders (completeOrder ''n1'' 10 11 shopState shopState) = [co] \<and>
         CompletedOrder.supplier co = ''Fruit Co'' \<and> CompletedOrder.items co = [appleLine 3]) \<and>
   AppState.currentOrder (completeOrder ''n1'' 10 11 shopState shopState) = [] \<and>
   (\<exists>co. AppState.completedOrders
            (completeOrder ''n1'' 10 11 shopState (addToOrder rice 2 Undefined shopState)) = [co] \<and>
         CompletedOrder.supplier co = ''Fruit Co'' \<and> CompletedOrder.items co = [appleLine 3]) \<and>
   AppState.currentOrder
     (completeOrder ''n1'' 10 11 shopState (addToOrder rice 2 Undefined shopState)) = []"
proof -
  have h: "AppState.currentOrder shopState \<noteq> []"
    by (simp add: shopState_def)
  from completeOrder_nonempty [OF h, of "''n1''" 10 11 shopState]
    completeOrder_nonempty [OF h, of "''n1''" 10 11 "addToOrder rice 2 Undefined shopState"]
  show ?thesis
    by (auto simp: shopState_def appleLine_def apple_def addToOrder_def)
qed

text \<open>
  Claim C6, as the code has it. \<open>completeOrder\<close> returns the state as it is, so that no
  collection changes, whenever the cart that it reads is empty: the cart of the render
  \<open>r\<close> that it was created in. The result of \<open>clearOrder\<close> has an empty cart, so this
  holds for every call from a render of the cleared state, whatever the state that the
  setters update.
\<close>

theorem completeOrder_empty_noop:
  "(AppState.currentOrder r = [] \<longrightarrow> completeOrder nid t1 t2 r s = s) \<and>
   AppState.currentOrder (clearOrder s0) = [] \<and>
   completeOrder nid t1 t2 (clearOrder s0) s = s \<and>
   completeOrder nid t1 t2 (clearOrder s0) (clearOrder s0) = clearOrder s0 \<and>
   AppState.completedOrders (completeOrder nid t1 t2 (clearOrder s0) (clearOrder s0)) =
     AppState.completedOrders s0"
  by (simp add: completeOrder_def clearOrder_def)

theorem completeOrder_empty_noop_witness:
  "AppState.currentOrder initialState = [] \<and>
   completeOrder ''n1'' 10 11 initialState shopState = shopState \<and>
   completeOrder ''n1'' 10 11 (clearOrder shopState) (clearOrder shopState) =
     clearOrder shopState \<and>
   AppState.completedOrders
     (completeOrder ''n1'' 10 11 (clearOrder shopState) (clearOrder shopState)) = []"
  using completeOrder_empty_noop [of initialState "''n1''" 10 11 shopState shopState]
  by (simp add: initialState_def shopState_def clearOrder_def)

text \<open>
  Claim C6 as stated, immediately after \<open>clearOrder\<close>: \<open>clearOrder(); completeOrder()\<close>
  from one render of a state with one line in the cart. After \<open>clearOrder\<close> the cart is
  empty and there is no completed order; \<open>completeOrder\<close> still reads the cart of its
  render and appends a completed order of that line.
\<close>

theorem completeOrder_after_clearOrder_counterexample:
  "AppState.currentOrder (clearOrder shopState) = [] \<and>
   AppState.completedOrders (clearOrder shopState) = [] \<and>
   map CompletedOrder.items
     (AppState.completedOrders (completeOrder ''n1'' 10 11 shopState (clearOrder shopState))) =
     [[appleLine 3]] \<and>
   completeOrder ''n1'' 10 11 shopState (clearOrder shopState) \<noteq> clearOrder shopState"
  by (simp add: completeOrder_def clearOrder_def shopState_def Let_def)

text \<open>
  Claim C8, as the code has it. \<open>addToOrder\<close> and \<open>updateOrderItem\<close> take any number as
  the quantity and do not check it. They keep every line of the cart positive when the
  quantity that they are given is positive; \<open>removeFromOrder\<close> and \<open>clearOrder\<close> always do.
\<close>

theorem cartPositive_preserved:
  assumes "cartPositive s"
  shows "(0 < qty \<longrightarrow> cartPositive (addToOrder itm qty stag s)) \<and>
         (0 < qty \<longrightarrow> cartPositive (updateOrderItem itemId qty stag s)) \<and>
         cartPositive (removeFromOrder itemId stag s) \<and>
         cartPositive (clearOrder s)"
  using assms
  by (auto simp: cartPositive_def addToOrder_def updateOrderItem_def removeFromOrder_def
      clearOrder_def list_all_iff Let_def add_pos_pos split: option.splits if_splits)

theorem cartPositive_preserved_witness:
  "cartPositive shopState \<and> (0::real) < 2 \<and>
   AppState.currentOrder (addToOrder apple 2 (Val ''wb'') shopState) = [appleLine 5] \<and>
   cartPositive (addToOrder apple 2 (Val ''wb'') shopState) \<and>
   AppState.currentOrder (addToOrder rice 2 Undefined shopState) =
     [appleLine 3,
      \<lparr>item = rice, quantity = 2, OrderItem.storeTag = Undefined, isNewItem = Undefined\<rparr>] \<and>
   cartPositive (addToOrder rice 2 Undefined shopState) \<and>
   AppState.currentOrder (updateOrderItem ''apple'' 2 (Val ''wb'') shopState) = [appleLine 2] \<and>
   cartPositive (updateOrderItem ''apple'' 2 (Val ''wb'') shopState) \<and>
   AppState.currentOrder (removeFromOrder ''rice'' Undefined shopState) = [appleLine 3] \<and>
   cartPositive (removeFromOrder ''rice'' Undefined shopState)"
proof -
  have h: "cartPositive shopState"
    by (simp add: cartPositive_def shopState_def appleLine_def)
  have c: "AppState.currentOrder (addToOrder apple 2 (Val ''wb'') shopState) = [appleLine 5] \<and>
      AppState.currentOrder (addToOrder rice 2 Undefined shopState) =
        [appleLine 3,
         \<lparr>item = rice, quantity = 2, OrderItem.storeTag = Undefined, isNewItem = Undefined\<rparr>] \<and>
      AppState.currentOrder (updateOrderItem ''apple'' 2 (Val ''wb'') shopState) = [appleLine 2] \<and>
      AppState.currentOrder (removeFromOrder ''rice'' Undefined shopState) = [appleLine 3]"
    by (simp add: addToOrder_def updateOrderItem_def removeFromOrder_def shopState_def
        appleLine_def apple_def rice_def sameLine_def)
  from cartPositive_preserved [OF h, of 2 apple "Val ''wb''" "''apple''"]
    cartPositive_preserved [OF h, of 2 rice Undefined "''rice''"] h c
  show ?thesis by simp
qed

text \<open>
  Claim C8 as stated, for every quantity that the interface accepts: from the empty
  cart, \<open>addToOrder\<close> with the quantity \<open>-2\<close> makes a line of quantity \<open>-2\<close>, and
  \<open>updateOrderItem\<close> with the quantity \<open>0\<close> sets a positive line to \<open>0\<close>.
\<close>

theorem cartPositive_counterexample:
  "cartPositive initialState \<and>
   \<not> cartPositive (addToOrder apple (- 2) (Val ''wb'') initialState) \<and>
   cartPositive (initialState\<lparr>AppState.currentOrder := [appleLine 1]\<rparr>) \<and>
   \<not> cartPositive (updateOrderItem ''apple'' 0 (Val ''wb'')
        (initialState\<lparr>AppState.currentOrder := [appleLine 1]\<rparr>))"
  by (simp add: cartPositive_def initialState_def addToOrder_def updateOrderItem_def
      appleLine_def apple_def sameLine_def)

text \<open>
  Claim C5. \<open>importData\<close> overwrites a collection exactly when the input has the
  corresponding key, with the value of the key, and leaves it as it is otherwise. An
  input that has \<open>items\<close> and none of \<open>suppliers\<close>, \<open>completedOrders\<close> and
  \<open>pendingOrders\<close> changes the items alone.
\<close>

theorem importData_present_fields_only:
  "AppState.items (importData d s) =
     (case StorageData.items d of Some v \<Rightarrow> v | None \<Rightarrow> AppState.items s) \<and>
   AppState.suppliers (importData d s) =
     (case StorageData.suppliers d of Some v \<Rightarrow> v | None \<Rightarrow> AppState.suppliers s) \<and>
   AppState.completedOrders (importData d s) =
     (case StorageData.completedOrders d of Some v \<Rightarrow> v | None \<Rightarrow> AppState.completedOrders s) \<and>
   AppState.pendingOrders (importData d s) =
     (case StorageData.pendingOrders d of Some v \<Rightarrow> v | None \<Rightarrow> AppState.pendingOrders s) \<and>
   (StorageData.items d = Some v \<and> StorageData.suppliers d = None \<and>
    StorageData.completedOrders d = None \<and> StorageData.pendingOrders d = None \<longrightarrow>
      importData d s = s\<lparr>AppState.items := v\<rparr> \<and>
      AppState.suppliers (importData d s) = AppState.suppliers s \<and>
      AppState.pendingOrders (importData d s) = AppState.pendingOrders s \<and>
      AppState.completedOrders (importData d s) = AppState.completedOrders s)"
  by (simp add: importData_def Let_def split: option.splits)

theorem importData_present_fields_only_witness:
  "StorageData.items (onlyItems [rice]) = Some [rice] \<and>
   StorageData.suppliers (onlyItems [rice]) = None \<and>
   StorageData.completedOrders (onlyItems [rice]) = None \<and>
   StorageData.pendingOrders (onlyItems [rice]) = None \<and>
   importData (onlyItems [rice]) shopState = shopState\<lparr>AppState.items := [rice]\<rparr> \<and>
   AppState.suppliers (importData (onlyItems [rice]) shopState) = [fruitCo]"
  using importData_present_fields_only [of "onlyItems [rice]" shopState "[rice]"]
  by (simp add: onlyItems_def shopState_def)

text \<open>
  Claim C10. \<open>importData\<close> has no assignment to the cart: whatever the input, also one
  that has the keys \<open>currentOrder\<close> and \<open>currentOrderMetadata\<close> as the result of
  \<open>exportData\<close> has, the cart and its metadata stay as they are.
\<close>

theorem importData_keeps_cart:
  "AppState.currentOrder (importData (d :: 'a StorageData_scheme) s) = AppState.currentOrder s \<and>
   AppState.currentOrderMetadata (importData d s) = AppState.currentOrderMetadata s \<and>
   AppState.currentOrder (importData (snap :: Snapshot) s) = AppState.currentOrder s \<and>
   AppState.currentOrderMetadata (importData snap s) = AppState.currentOrderMetadata s \<and>
   Snapshot.currentOrder (exportData r) = Some (AppState.currentOrder r) \<and>
   Snapshot.currentOrderMetadata (exportData r) = Some (AppState.currentOrderMetadata r) \<and>
   AppState.currentOrder (importData (exportData r) s) = AppState.currentOrder s \<and>
   AppState.currentOrderMetadata (importData (exportData r) s) = AppState.currentOrderMetadata s"
  by (simp add: importData_def exportData_def Let_def split: option.splits)

text \<open>
  Claim C2, as the code has it. Importing the export of the state itself changes
  nothing. Importing the export of a state \<open>r\<close> into a state \<open>s\<close> restores the items,
  suppliers, completed orders and pending orders of \<open>r\<close>; the cart and its metadata are
  those of \<open>s\<close>, as \<open>importData\<close> does not read the two keys.
\<close>

theorem import_export_roundtrip:
  "importData (exportData s) s = s \<and>
   exportData (importData (exportData s) s) = exportData s \<and>
   AppState.items (importData (exportData r) s) = AppState.items r \<and>
   AppState.suppliers (importData (exportData r) s) = AppState.suppliers r \<and>
   AppState.completedOrders (importData (exportData r) s) = AppState.completedOrders r \<and>
   AppState.pendingOrders (importData (exportData r) s) = AppState.pendingOrders r \<and>
   AppState.currentOrder (importData (exportData r) s) = AppState.currentOrder s \<and>
   AppState.currentOrderMetadata (importData (exportData r) s) = AppState.currentOrderMetadata s"
  by (simp add: importData_def exportData_def Let_def)

text \<open>
  Claim C2 as stated, for an export taken from one state and imported into another: the
  export of a state with one line in the cart, imported into the initial state, leaves
  the cart empty and the metadata without the store.
\<close>

theorem import_export_cart_counterexample:
  "AppState.currentOrder shopState = [appleLine 3] \<and>
   AppState.currentOrder (importData (exportData shopState) initialState) = [] \<and>
   AppState.currentOrderMetadata (importData (exportData shopState) initialState) \<noteq>
     AppState.currentOrderMetadata shopState \<and>
   exportData (importData (exportData shopState) initialState) \<noteq> exportData shopState"
  by (simp add: importData_def exportData_def Let_def shopState_def initialState_def
      defaultMetadata_def)

text \<open>
  Claim C7. \<open>deleteItem\<close> removes every item with the given id from the items, whatever
  the remote store answers: the new state does not depend on the answer. When the remote
  delete fails, \<open>SupabaseSync.deleteItem\<close> throws the error, which \<open>deleteItem\<close> logs; the
  items are removed all the same and no other collection changes.
\<close>

theorem deleteItem_local_first:
  "fst (deleteItem k remoteDelete s) =
     s\<lparr>AppState.items := filter (\<lambda>i. Item.id i \<noteq> k) (AppState.items s)\<rparr> \<and>
   k \<notin> Item.id ` set (AppState.items (fst (deleteItem k remoteDelete s))) \<and>
   fst (deleteItem k remoteDelete s) = fst (deleteItem k remoteDelete' s) \<and>
   (remoteDelete k = Some err \<longrightarrow>
      SupabaseSync_deleteItem k remoteDelete = Inl err \<and>
      deleteItem k remoteDelete s =
        (s\<lparr>AppState.items := filter (\<lambda>i. Item.id i \<noteq> k) (AppState.items s)\<rparr>, [err]))"
  by (auto simp: deleteItem_def SupabaseSync_deleteItem_def Let_def split: option.splits sum.splits)

theorem deleteItem_local_first_witness:
  "failingDelete ''apple'' = Some (RemoteError ''network'') \<and>
   SupabaseSync_deleteItem ''apple'' failingDelete = Inl (RemoteError ''network'') \<and>
   deleteItem ''apple'' failingDelete shopState =
     (shopState\<lparr>AppState.items := []\<rparr>, [RemoteError ''network''])"
  using deleteItem_local_first [of "''apple''" failingDelete shopState failingDelete
      "RemoteError ''network''"]
  by (simp add: failingDelete_def shopState_def apple_def)

section \<open>Properties of the in-flight guard\<close>

lemma guardInv_guarded: "guardInv st \<Longrightarrow> guardInv (guarded c a st)"
  by (auto simp: guarded_def guardInv_def)

lemma guardInv_step: "guardInv st \<Longrightarrow> guardInv (step st ev)"
proof (cases ev)
  case (Settle c)
  assume inv: "guardInv st"
  show ?thesis
  proof (cases "c \<in> set (inFlight st)")
    case True
    with inv have "inFlight st = [c]"
      by (cases "inFlight st") (auto simp: guardInv_def)
    then show ?thesis
      by (simp add: Settle settle_def guardInv_def)
  next
    case False
    with inv show ?thesis by (simp add: Settle settle_def)
  qed
qed (simp_all add: syncItems_def syncSuppliers_def syncPendingOrders_def syncCurrentOrder_def
    guardInv_guarded)

lemma guardInv_run: "guardInv (run evs)"
proof (induction evs rule: rev_induct)
  case Nil
  show ?case by (simp add: run_def syncIdle_def guardInv_def)
next
  case (snoc ev evs)
  then show ?case by (simp add: run_def guardInv_step)
qed

text \<open>
  Claim C9, as the code has it. The four sync operations test and set the one flag
  \<open>syncInProgress\<close>. While the flag is set, a sync call of any category, with any
  argument, is dropped. A call that finds the flag clear runs: \<open>syncItems\<close>,
  \<open>syncSuppliers\<close> and \<open>syncPendingOrders\<close> with a non-empty array and every
  \<open>syncCurrentOrder\<close> set the flag and are in flight; with an empty array the three make
  no remote call and leave the flag clear. In every state that calls and settlements
  lead to, the flag is set exactly while a call is in flight, and at most one call, of
  whatever category, is in flight.
\<close>

theorem shared_guard:
  "(syncInProgress st \<longrightarrow>
      syncItems its st = st\<lparr>dropped := dropped st @ [Items]\<rparr> \<and>
      syncSuppliers sups st = st\<lparr>dropped := dropped st @ [Suppliers]\<rparr> \<and>
      syncPendingOrders orders st = st\<lparr>dropped := dropped st @ [PendingOrders]\<rparr> \<and>
      syncCurrentOrder ls md st = st\<lparr>dropped := dropped st @ [CurrentOrder]\<rparr>) \<and>
   (\<not> syncInProgress st \<longrightarrow>
      (its \<noteq> [] \<longrightarrow>
         syncItems its st = st\<lparr>syncInProgress := True, inFlight := inFlight st @ [Items]\<rparr>) \<and>
      (sups \<noteq> [] \<longrightarrow>
         syncSuppliers sups st =
           st\<lparr>syncInProgress := True, inFlight := inFlight st @ [Suppliers]\<rparr>) \<and>
      (orders \<noteq> [] \<longrightarrow>
         syncPendingOrders orders st =
           st\<lparr>syncInProgress := True, inFlight := inFlight st @ [PendingOrders]\<rparr>) \<and>
      syncCurrentOrder ls md st =
        st\<lparr>syncInProgress := True, inFlight := inFlight st @ [CurrentOrder]\<rparr> \<and>
      syncItems [] st = st \<and> syncSuppliers [] st = st \<and> syncPendingOrders [] st = st) \<and>
   (syncInProgress (run evs) \<longleftrightarrow> inFlight (run evs) \<noteq> []) \<and>
   length (inFlight (run evs)) \<le> 1"
  using guardInv_run [of evs]
  by (simp add: syncItems_def syncSuppliers_def syncPendingOrders_def syncCurrentOrder_def
      guarded_def guardInv_def)

theorem shared_guard_witness:
  "syncInProgress (run [SyncItems [apple]]) \<and>
   syncSuppliers [fruitCo] (run [SyncItems [apple]]) =
     \<lparr>syncInProgress = True, inFlight = [Items], dropped = [Suppliers]\<rparr> \<and>
   \<not> syncInProgress (run [SyncItems [apple], Settle Items]) \<and>
   syncSuppliers [fruitCo] (run [SyncItems [apple], Settle Items]) =
     \<lparr>syncInProgress = True, inFlight = [Suppliers], dropped = []\<rparr> \<and>
   syncItems [] (run [SyncItems [apple], Settle Items]) = run [SyncItems [apple], Settle Items]"
  using shared_guard [of "run [SyncItems [apple]]" "[apple]" "[fruitCo]" "[]" "[]"
      defaultMetadata "[]"]
    shared_guard [of "run [SyncItems [apple], Settle Items]" "[apple]" "[fruitCo]" "[]" "[]"
      defaultMetadata "[]"]
  by (simp add: run_def syncIdle_def syncItems_def guarded_def settle_def)

text \<open>
  Claim C9 as stated, with one guard for each category: while a \<open>syncItems\<close> of one item
  is in flight, a call of \<open>syncSuppliers\<close> is dropped; and of four calls in a row, one of
  each category, the first is in flight and the three of the other categories are
  dropped.
\<close>

theorem other_category_dropped_counterexample:
  "run [SyncItems [apple], SyncSuppliers [fruitCo]] =
     \<lparr>syncInProgress = True, inFlight = [Items], dropped = [Suppliers]\<rparr> \<and>
   run [SyncItems [apple], SyncSuppliers [fruitCo], SyncPendingOrders [],
        SyncCurrentOrder [appleLine 3] defaultMetadata] =
     \<lparr>syncInProgress = True, inFlight = [Items],
      dropped = [Suppliers, PendingOrders, CurrentOrder]\<rparr>"
  by (simp add: run_def syncIdle_def syncItems_def syncSuppliers_def syncPendingOrders_def
      syncCurrentOrder_def guarded_def)

section \<open>Properties of the merge of pending orders\<close>

lemma findIndex_absent: "\<forall>x \<in> set xs. \<not> P x \<Longrightarrow> findIndex P xs = -1"
  by (induction xs) (simp_all add: Let_def)

lemma findIndex_present:
  "\<exists>x \<in> set xs. P x \<Longrightarrow> findIndex P xs = int (length (takeWhile (\<lambda>x. \<not> P x) xs))"
proof (induction xs)
  case Nil
  then show ?case by simp
next
  case (Cons x xs)
  show ?case
  proof (cases "P x")
    case True
    then show ?thesis by simp
  next
    case False
    with Cons.prems have "\<exists>y \<in> set xs. P y" by simp
    from Cons.IH [OF this] False show ?thesis by (simp add: Let_def)
  qed
qed

lemma takeWhile_first:
  assumes "\<exists>x \<in> set xs. P x"
  shows "length (takeWhile (\<lambda>x. \<not> P x) xs) < length xs"
    and "P (xs ! length (takeWhile (\<lambda>x. \<not> P x) xs))"
proof -
  show l: "length (takeWhile (\<lambda>x. \<not> P x) xs) < length xs"
    using assms by (induction xs) auto
  from nth_length_takeWhile [OF l] show "P (xs ! length (takeWhile (\<lambda>x. \<not> P x) xs))"
    by simp
qed

lemma mergeItem_absent:
  assumes "Item.id (item n) \<notin> set (lineIds m)"
  shows "mergeItem m n = m @ [n]"
proof -
  have "\<forall>mi \<in> set m. \<not> Item.id (item mi) = Item.id (item n)"
  proof
    fix mi
    assume "mi \<in> set m"
    then have "Item.id (item mi) \<in> set (lineIds m)"
      by (simp add: lineIds_def)
    with assms show "\<not> Item.id (item mi) = Item.id (item n)"
      by metis
  qed
  then have "findIndex (\<lambda>mi. Item.id (item mi) = Item.id (item n)) m = -1"
    by (rule findIndex_absent)
  then show ?thesis by (simp add: mergeItem_def)
qed

lemma mergeItem_present:
  assumes "Item.id (item n) \<in> set (lineIds m)"
  defines "i \<equiv> length (takeWhile (\<lambda>mi. Item.id (item mi) \<noteq> Item.id (item n)) m)"
  shows "mergeItem m n = m[i := (m ! i)\<lparr>quantity := quantity (m ! i) + quantity n\<rparr>]"
    and "i < length m" and "Item.id (item (m ! i)) = Item.id (item n)"
proof -
  from assms(1) have ex: "\<exists>mi \<in> set m. Item.id (item mi) = Item.id (item n)"
    by (auto simp: lineIds_def)
  from findIndex_present [OF ex]
  have fi: "findIndex (\<lambda>mi. Item.id (item mi) = Item.id (item n)) m = int i"
    by (simp add: i_def)
  then show "mergeItem m n = m[i := (m ! i)\<lparr>quantity := quantity (m ! i) + quantity n\<rparr>]"
    by (simp add: mergeItem_def)
  from takeWhile_first [OF ex] show "i < length m" and "Item.id (item (m ! i)) = Item.id (item n)"
    by (simp_all add: i_def)
qed

lemma lineIds_mergeItem:
  "lineIds (mergeItem m n) =
     (if Item.id (item n) \<in> set (lineIds m) then lineIds m
      else lineIds m @ [Item.id (item n)])"
proof (cases "Item.id (item n) \<in> set (lineIds m)")
  case True
  let ?i = "length (takeWhile (\<lambda>mi. Item.id (item mi) \<noteq> Item.id (item n)) m)"
  note p = mergeItem_present [OF True]
  have "lineIds (mergeItem m n) = (lineIds m)[?i := Item.id (item (m ! ?i))]"
    by (simp add: p(1) lineIds_def map_update)
  also have "\<dots> = lineIds m"
    using p(2) by (simp add: lineIds_def list_update_same_conv)
  finally show ?thesis using True by simp
next
  case False
  then show ?thesis by (simp add: mergeItem_absent lineIds_def)
qed

lemma firstLineOf_lineIds:
  "firstLineOf k ls = length (takeWhile (\<lambda>x. x \<noteq> k) (lineIds ls))"
  by (simp add: firstLineOf_def lineIds_def takeWhile_map comp_def)

lemma firstLineOf_present:
  assumes "k \<in> set (lineIds m)"
  shows "firstLineOf k m < length m" and "Item.id (item (m ! firstLineOf k m)) = k"
proof -
  from assms have ex: "\<exists>l \<in> set m. Item.id (item l) = k"
    by (auto simp: lineIds_def)
  from takeWhile_first [of m "\<lambda>l. Item.id (item l) = k", OF ex]
  show "firstLineOf k m < length m" and "Item.id (item (m ! firstLineOf k m)) = k"
    by (simp_all add: firstLineOf_def)
qed

lemma firstLineOf_mergeItem:
  assumes "k \<in> set (lineIds m)"
  shows "firstLineOf k (mergeItem m n) = firstLineOf k m"
proof -
  have "takeWhile (\<lambda>x. x \<noteq> k) (lineIds m @ [Item.id (item n)]) =
      takeWhile (\<lambda>x. x \<noteq> k) (lineIds m)"
    using assms by (intro takeWhile_append1 [of k]) simp_all
  then show ?thesis
    by (simp add: firstLineOf_lineIds lineIds_mergeItem)
qed

lemma mergeItem_first_line:
  assumes k: "k \<in> set (lineIds m)"
  shows "mergeItem m n ! firstLineOf k m =
     (if Item.id (item n) = k
      then (m ! firstLineOf k m)\<lparr>quantity := quantity (m ! firstLineOf k m) + quantity n\<rparr>
      else m ! firstLineOf k m)"
proof (cases "Item.id (item n) \<in> set (lineIds m)")
  case False
  with k have "Item.id (item n) \<noteq> k" by auto
  with False firstLineOf_present(1) [OF k] show ?thesis
    by (simp add: mergeItem_absent nth_append)
next
  case True
  let ?j = "firstLineOf (Item.id (item n)) m"
  from mergeItem_present [OF True]
  have m: "mergeItem m n = m[?j := (m ! ?j)\<lparr>quantity := quantity (m ! ?j) + quantity n\<rparr>]"
    and j: "?j < length m" "Item.id (item (m ! ?j)) = Item.id (item n)"
    by (simp_all add: firstLineOf_def)
  show ?thesis
  proof (cases "Item.id (item n) = k")
    case True
    with j(1) show ?thesis by (simp add: m)
  next
    case False
    with j(2) firstLineOf_present(2) [OF k] have "?j \<noteq> firstLineOf k m"
      by metis
    with False show ?thesis by (simp add: m)
  qed
qed

lemma mergeItems_first_line:
  "k \<in> set (lineIds m) \<Longrightarrow>
   mergeItems m ns ! firstLineOf k m =
     (m ! firstLineOf k m)
       \<lparr>quantity := foldl (+) (quantity (m ! firstLineOf k m))
                      (map quantity (filter (\<lambda>n. Item.id (item n) = k) ns))\<rparr>"
proof (induction ns arbitrary: m)
  case Nil
  show ?case by (simp add: mergeItems_def)
next
  case (Cons n ns)
  let ?i = "firstLineOf k m"
  have unfold: "mergeItems m (n # ns) = mergeItems (mergeItem m n) ns"
    by (simp add: mergeItems_def)
  from Cons.prems have k': "k \<in> set (lineIds (mergeItem m n))"
    by (simp add: lineIds_mergeItem)
  have i': "firstLineOf k (mergeItem m n) = ?i"
    using Cons.prems by (rule firstLineOf_mergeItem)
  from Cons.IH [OF k'] have "mergeItems (mergeItem m n) ns ! ?i =
      (mergeItem m n ! ?i)
        \<lparr>quantity := foldl (+) (quantity (mergeItem m n ! ?i))
                       (map quantity (filter (\<lambda>n. Item.id (item n) = k) ns))\<rparr>"
    by (simp only: i')
  then show ?case
    by (simp add: unfold mergeItem_first_line [OF Cons.prems])
qed

lemma lineIds_mergeItems:
  "set (lineIds (mergeItems m ns)) = set (lineIds m) \<union> set (lineIds ns) \<and>
   take (length m) (lineIds (mergeItems m ns)) = lineIds m \<and>
   length m \<le> length (mergeItems m ns) \<and>
   (distinct (lineIds m) \<longrightarrow> distinct (lineIds (mergeItems m ns)))"
proof (induction ns arbitrary: m)
  case Nil
  show ?case by (simp add: mergeItems_def lineIds_def)
next
  case (Cons n ns)
  have unfold: "mergeItems m (n # ns) = mergeItems (mergeItem m n) ns"
    by (simp add: mergeItems_def)
  have len: "length (lineIds xs) = length xs" for xs
    by (simp add: lineIds_def)
  note ih = Cons.IH [of "mergeItem m n"]
  have lm: "length (mergeItem m n) =
      (if Item.id (item n) \<in> set (lineIds m) then length m else Suc (length m))"
    using lineIds_mergeItem [of m n] len [of "mergeItem m n"] len [of m]
    by (simp split: if_splits)
  have tk: "take (length m) (lineIds (mergeItem m n)) = lineIds m"
    by (simp add: lineIds_mergeItem len)
  have "take (length m) (lineIds (mergeItems m (n # ns))) =
      take (length m) (take (length (mergeItem m n)) (lineIds (mergeItems (mergeItem m n) ns)))"
    using lm by (simp add: unfold min_def)
  also have "\<dots> = lineIds m"
    using ih tk by simp
  finally have 2: "take (length m) (lineIds (mergeItems m (n # ns))) = lineIds m" .
  have s1: "set (lineIds (mergeItem m n)) = insert (Item.id (item n)) (set (lineIds m))"
    by (auto simp: lineIds_mergeItem)
  have s2: "set (lineIds (n # ns)) = insert (Item.id (item n)) (set (lineIds ns))"
    by (simp add: lineIds_def)
  from ih have "set (lineIds (mergeItems (mergeItem m n) ns)) =
      set (lineIds (mergeItem m n)) \<union> set (lineIds ns)"
    by blast
  then have 1: "set (lineIds (mergeItems m (n # ns))) = set (lineIds m) \<union> set (lineIds (n # ns))"
    by (simp add: unfold s1 s2)
  have 3: "length m \<le> length (mergeItems m (n # ns))"
    using ih lm by (simp add: unfold split: if_splits)
  have 4: "distinct (lineIds m) \<longrightarrow> distinct (lineIds (mergeItems m (n # ns)))"
    using ih by (simp add: unfold lineIds_mergeItem)
  from 1 2 3 4 show ?case by blast
qed

lemma spread_itemsUpdate:
  "(spread po (itemsUpdate m t1))\<lparr>PendingOrder.updatedAt := Val t2\<rparr> =
     po\<lparr>PendingOrder.items := m, PendingOrder.updatedAt := Val t2\<rparr>"
  by (simp add: spread_def itemsUpdate_def pick_def)

lemma find_openFor:
  "(\<exists>po \<in> set pos. openFor order po) \<Longrightarrow>
     \<exists>e. find (openFor order) pos = Some e \<and> e \<in> set pos \<and> openFor order e"
  by (induction pos) auto


lemma mergeItem_step:
  "(Item.id (item n) \<notin> set (lineIds m) \<longrightarrow> mergeItem m n = m @ [n]) \<and>
   (Item.id (item n) \<in> set (lineIds m) \<longrightarrow>
      (\<exists>i < length m.
         Item.id (item (m ! i)) = Item.id (item n) \<and>
         (\<forall>j < i. Item.id (item (m ! j)) \<noteq> Item.id (item n)) \<and>
         mergeItem m n = m[i := (m ! i)\<lparr>quantity := quantity (m ! i) + quantity n\<rparr>]))"
proof (intro conjI impI)
  assume "Item.id (item n) \<notin> set (lineIds m)"
  then show "mergeItem m n = m @ [n]" by (rule mergeItem_absent)
next
  assume p: "Item.id (item n) \<in> set (lineIds m)"
  let ?i = "length (takeWhile (\<lambda>mi. Item.id (item mi) \<noteq> Item.id (item n)) m)"
  have "\<forall>j < ?i. Item.id (item (m ! j)) \<noteq> Item.id (item n)"
    using nth_mem set_takeWhileD takeWhile_nth by (metis (mono_tags, lifting))
  with mergeItem_present [OF p]
  show "\<exists>i < length m.
         Item.id (item (m ! i)) = Item.id (item n) \<and>
         (\<forall>j < i. Item.id (item (m ! j)) \<noteq> Item.id (item n)) \<and>
         mergeItem m n = m[i := (m ! i)\<lparr>quantity := quantity (m ! i) + quantity n\<rparr>]"
    by blast
qed

lemma addPendingOrder_found:
  assumes f: "find (openFor order) (AppState.pendingOrders r) = Some e"
  shows "addPendingOrder nid t1 t2 order r s =
     (PendingOrder.id e,
      s\<lparr>AppState.pendingOrders :=
          map (\<lambda>po. if PendingOrder.id po = PendingOrder.id e
                     then po\<lparr>PendingOrder.items :=
                               mergeItems (PendingOrder.items e) (PendingOrderDraft.items order),
                             PendingOrder.updatedAt := Val t2\<rparr>
                     else po)
            (AppState.pendingOrders s)\<rparr>)"
  by (simp add: addPendingOrder_def f updatePendingOrder_def spread_itemsUpdate)

lemma addPendingOrder_not_found:
  assumes "\<forall>po \<in> set (AppState.pendingOrders r). \<not> openFor order po"
  shows "addPendingOrder nid t1 t2 order r s =
     (nid, s\<lparr>AppState.pendingOrders :=
               AppState.pendingOrders s @ [newPendingOrder order nid t1 t2]\<rparr>)"
proof -
  from assms have "find (openFor order) (AppState.pendingOrders r) = None"
    by (auto simp: find_None_iff)
  then show ?thesis
    by (simp add: addPendingOrder_def Let_def newPendingOrder_def)
qed

text \<open>
  Claim C1, as the code has it. \<open>addPendingOrder\<close> looks for the open order (same
  supplier, same store tag, status \<open>pending\<close> or \<open>processing\<close>) in the pending orders of
  the render \<open>r\<close> that it was created in, and updates the pending orders of the state
  \<open>s\<close>. When \<open>r\<close> has an open order for the draft, with \<open>e\<close> the first one, the id of
  \<open>e\<close> is returned and no order is added: every order of \<open>s\<close> with that id gets the
  lines of \<open>e\<close> merged with the draft's lines, and the new update time. The merge goes
  through the draft's lines in order: a line whose item id is not yet among the merged
  lines is appended, otherwise its quantity is added to the first merged line of that
  item. So the lines of \<open>e\<close> stay in place, the items of the result are those of \<open>e\<close>
  and of the draft, no item gets a second line, and the first line of an item of \<open>e\<close>
  ends with its quantity plus, one after the other, the quantities of the draft's lines
  of that item. When \<open>r\<close> has no open order for the draft, a new order with the draft's
  fields, the new id and the new creation and update times is appended to the pending
  orders of \<open>s\<close>, and the new id is returned. No other collection changes.
\<close>

theorem addPendingOrder_merge_or_create:
  "((\<exists>po \<in> set (AppState.pendingOrders r). openFor order po) \<longrightarrow>
      (\<exists>e \<in> set (AppState.pendingOrders r).
         openFor order e \<and>
         find (openFor order) (AppState.pendingOrders r) = Some e \<and>
         fst (addPendingOrder nid t1 t2 order r s) = PendingOrder.id e \<and>
         snd (addPendingOrder nid t1 t2 order r s) =
           s\<lparr>AppState.pendingOrders :=
               map (\<lambda>po. if PendingOrder.id po = PendingOrder.id e
                          then po\<lparr>PendingOrder.items :=
                                    mergeItems (PendingOrder.items e) (PendingOrderDraft.items order),
                                  PendingOrder.updatedAt := Val t2\<rparr>
                          else po)
                 (AppState.pendingOrders s)\<rparr> \<and>
         length (AppState.pendingOrders (snd (addPendingOrder nid t1 t2 order r s))) =
           length (AppState.pendingOrders s) \<and>
         (e \<in> set (AppState.pendingOrders s) \<longrightarrow>
            e\<lparr>PendingOrder.items :=
                 mergeItems (PendingOrder.items e) (PendingOrderDraft.items order),
               PendingOrder.updatedAt := Val t2\<rparr>
              \<in> set (AppState.pendingOrders (snd (addPendingOrder nid t1 t2 order r s)))))) \<and>
   ((\<forall>po \<in> set (AppState.pendingOrders r). \<not> openFor order po) \<longrightarrow>
      addPendingOrder nid t1 t2 order r s =
        (nid, s\<lparr>AppState.pendingOrders :=
                  AppState.pendingOrders s @ [newPendingOrder order nid t1 t2]\<rparr>) \<and>
      PendingOrder.id (newPendingOrder order nid t1 t2) = nid \<and>
      PendingOrder.createdAt (newPendingOrder order nid t1 t2) = t1 \<and>
      PendingOrder.updatedAt (newPendingOrder order nid t1 t2) = Val t2 \<and>
      PendingOrder.supplier (newPendingOrder order nid t1 t2) = PendingOrderDraft.supplier order \<and>
      PendingOrder.storeTag (newPendingOrder order nid t1 t2) = PendingOrderDraft.storeTag order \<and>
      PendingOrder.status (newPendingOrder order nid t1 t2) = PendingOrderDraft.status order \<and>
      PendingOrder.items (newPendingOrder order nid t1 t2) = PendingOrderDraft.items order) \<and>
   mergeItems m [] = m \<and>
   mergeItems m (ns @ [n]) = mergeItem (mergeItems m ns) n \<and>
   (Item.id (item n) \<notin> set (lineIds m) \<longrightarrow> mergeItem m n = m @ [n]) \<and>
   (Item.id (item n) \<in> set (lineIds m) \<longrightarrow>
      (\<exists>i < length m.
         Item.id (item (m ! i)) = Item.id (item n) \<and>
         (\<forall>j < i. Item.id (item (m ! j)) \<noteq> Item.id (item n)) \<and>
         mergeItem m n = m[i := (m ! i)\<lparr>quantity := quantity (m ! i) + quantity n\<rparr>])) \<and>
   (k \<in> set (lineIds m) \<longrightarrow>
      mergeItems m ns ! firstLineOf k m =
        (m ! firstLineOf k m)
          \<lparr>quantity := foldl (+) (quantity (m ! firstLineOf k m))
                         (map quantity (filter (\<lambda>n. Item.id (item n) = k) ns))\<rparr>) \<and>
   set (lineIds (mergeItems m ns)) = set (lineIds m) \<union> set (lineIds ns) \<and>
   take (length m) (lineIds (mergeItems m ns)) = lineIds m \<and>
   (distinct (lineIds m) \<longrightarrow> distinct (lineIds (mergeItems m ns))) \<and>
   AppState.items (snd (addPendingOrder nid t1 t2 order r s)) = AppState.items s \<and>
   AppState.suppliers (snd (addPendingOrder nid t1 t2 order r s)) = AppState.suppliers s \<and>
   AppState.currentOrder (snd (addPendingOrder nid t1 t2 order r s)) = AppState.currentOrder s \<and>
   AppState.currentOrderMetadata (snd (addPendingOrder nid t1 t2 order r s)) =
     AppState.currentOrderMetadata s \<and>
   AppState.completedOrders (snd (addPendingOrder nid t1 t2 order r s)) =
     AppState.completedOrders s"
proof -
  let ?res = "addPendingOrder nid t1 t2 order r s"
  have found: "(\<exists>po \<in> set (AppState.pendingOrders r). openFor order po) \<longrightarrow>
      (\<exists>e \<in> set (AppState.pendingOrders r).
         openFor order e \<and>
         find (openFor order) (AppState.pendingOrders r) = Some e \<and>
         fst ?res = PendingOrder.id e \<and>
         snd ?res =
           s\<lparr>AppState.pendingOrders :=
               map (\<lambda>po. if PendingOrder.id po = PendingOrder.id e
                          then po\<lparr>PendingOrder.items :=
                                    mergeItems (PendingOrder.items e) (PendingOrderDraft.items order),
                                  PendingOrder.updatedAt := Val t2\<rparr>
                          else po)
                 (AppState.pendingOrders s)\<rparr> \<and>
         length (AppState.pendingOrders (snd ?res)) = length (AppState.pendingOrders s) \<and>
         (e \<in> set (AppState.pendingOrders s) \<longrightarrow>
            e\<lparr>PendingOrder.items :=
                 mergeItems (PendingOrder.items e) (PendingOrderDraft.items order),
               PendingOrder.updatedAt := Val t2\<rparr>
              \<in> set (AppState.pendingOrders (snd ?res))))"
  proof
    assume "\<exists>po \<in> set (AppState.pendingOrders r). openFor order po"
    from find_openFor [OF this] obtain e
      where e: "find (openFor order) (AppState.pendingOrders r) = Some e"
        "e \<in> set (AppState.pendingOrders r)" "openFor order e"
      by blast
    note res = addPendingOrder_found [OF e(1), of nid t1 t2 s]
    have mem: "e \<in> set (AppState.pendingOrders s) \<longrightarrow>
        e\<lparr>PendingOrder.items :=
             mergeItems (PendingOrder.items e) (PendingOrderDraft.items order),
           PendingOrder.updatedAt := Val t2\<rparr>
          \<in> set (AppState.pendingOrders (snd ?res))"
    proof
      assume "e \<in> set (AppState.pendingOrders s)"
      then show "e\<lparr>PendingOrder.items :=
             mergeItems (PendingOrder.items e) (PendingOrderDraft.items order),
           PendingOrder.updatedAt := Val t2\<rparr>
          \<in> set (AppState.pendingOrders (snd ?res))"
        by (simp add: res image_iff) (rule bexI [of _ e], simp_all)
    qed
    show "\<exists>e \<in> set (AppState.pendingOrders r).
         openFor order e \<and>
         find (openFor order) (AppState.pendingOrders r) = Some e \<and>
         fst ?res = PendingOrder.id e \<and>
         snd ?res =
           s\<lparr>AppState.pendingOrders :=
               map (\<lambda>po. if PendingOrder.id po = PendingOrder.id e
                          then po\<lparr>PendingOrder.items :=
                                    mergeItems (PendingOrder.items e) (PendingOrderDraft.items order),
                                  PendingOrder.updatedAt := Val t2\<rparr>
                          else po)
                 (AppState.pendingOrders s)\<rparr> \<and>
         length (AppState.pendingOrders (snd ?res)) = length (AppState.pendingOrders s) \<and>
         (e \<in> set (AppState.pendingOrders s) \<longrightarrow>
            e\<lparr>PendingOrder.items :=
                 mergeItems (PendingOrder.items e) (PendingOrderDraft.items order),
               PendingOrder.updatedAt := Val t2\<rparr>
              \<in> set (AppState.pendingOrders (snd ?res)))"
      using e mem by (intro bexI [of _ e]) (simp_all add: res)
  qed
  have created: "(\<forall>po \<in> set (AppState.pendingOrders r). \<not> openFor order po) \<longrightarrow>
      ?res = (nid, s\<lparr>AppState.pendingOrders :=
                  AppState.pendingOrders s @ [newPendingOrder order nid t1 t2]\<rparr>)"
    by (simp add: addPendingOrder_not_found)
  have fields: "PendingOrder.id (newPendingOrder order nid t1 t2) = nid \<and>
      PendingOrder.createdAt (newPendingOrder order nid t1 t2) = t1 \<and>
      PendingOrder.updatedAt (newPendingOrder order nid t1 t2) = Val t2 \<and>
      PendingOrder.supplier (newPendingOrder order nid t1 t2) = PendingOrderDraft.supplier order \<and>
      PendingOrder.storeTag (newPendingOrder order nid t1 t2) = PendingOrderDraft.storeTag order \<and>
      PendingOrder.status (newPendingOrder order nid t1 t2) = PendingOrderDraft.status order \<and>
      PendingOrder.items (newPendingOrder order nid t1 t2) = PendingOrderDraft.items order"
    by (simp add: newPendingOrder_def)
  have fold: "mergeItems m [] = m \<and> mergeItems m (ns @ [n]) = mergeItem (mergeItems m ns) n"
    by (simp add: mergeItems_def)
  have total: "k \<in> set (lineIds m) \<longrightarrow>
      mergeItems m ns ! firstLineOf k m =
        (m ! firstLineOf k m)
          \<lparr>quantity := foldl (+) (quantity (m ! firstLineOf k m))
                         (map quantity (filter (\<lambda>n. Item.id (item n) = k) ns))\<rparr>"
    by (simp add: mergeItems_first_line)
  have frame: "AppState.items (snd ?res) = AppState.items s \<and>
      AppState.suppliers (snd ?res) = AppState.suppliers s \<and>
      AppState.currentOrder (snd ?res) = AppState.currentOrder s \<and>
      AppState.currentOrderMetadata (snd ?res) = AppState.currentOrderMetadata s \<and>
      AppState.completedOrders (snd ?res) = AppState.completedOrders s"
    by (simp add: addPendingOrder_def updatePendingOrder_def Let_def split: option.splits)
  from found created fields fold total frame mergeItem_step [of n m]
    lineIds_mergeItems [of m ns]
  show ?thesis by blast
qed

theorem addPendingOrder_merge_or_create_witness:
  "openFor (fruitDraft [pendingLine apple 2, pendingLine rice 1])
     (newPendingOrder (fruitDraft [pendingLine apple 3]) ''p1'' 1 1) \<and>
   addPendingOrder ''n2'' 7 8 (fruitDraft [pendingLine apple 2, pendingLine rice 1])
     (initialState\<lparr>AppState.pendingOrders :=
        [newPendingOrder (fruitDraft [pendingLine apple 3]) ''p1'' 1 1]\<rparr>)
     (shopState\<lparr>AppState.pendingOrders :=
        [newPendingOrder (fruitDraft [pendingLine apple 3]) ''p1'' 1 1]\<rparr>) =
     (''p1'',
      shopState\<lparr>AppState.pendingOrders :=
        [newPendingOrder (fruitDraft [pendingLine apple 5, pendingLine rice 1]) ''p1'' 1 8]\<rparr>) \<and>
   addPendingOrder ''p1'' 1 1 (fruitDraft [pendingLine apple 3]) initialState shopState =
     (''p1'',
      shopState\<lparr>AppState.pendingOrders :=
        [newPendingOrder (fruitDraft [pendingLine apple 3]) ''p1'' 1 1]\<rparr>) \<and>
   Item.id (item (pendingLine apple 2)) \<in> set (lineIds [pendingLine apple 3]) \<and>
   mergeItem [pendingLine apple 3] (pendingLine apple 2) = [pendingLine apple 5] \<and>
   Item.id (item (pendingLine rice 1)) \<notin> set (lineIds [pendingLine apple 3]) \<and>
   mergeItem [pendingLine apple 3] (pendingLine rice 1) = [pendingLine apple 3, pendingLine rice 1] \<and>
   ''apple'' \<in> set (lineIds [pendingLine rice 1, pendingLine apple 3]) \<and>
   mergeItems [pendingLine rice 1, pendingLine apple 3]
     [pendingLine apple 2, pendingLine rice 4, pendingLine apple 1] ! 1 = pendingLine apple 6 \<and>
   distinct (lineIds [pendingLine apple 3])"
  using addPendingOrder_merge_or_create
    [where r = "initialState\<lparr>AppState.pendingOrders :=
           [newPendingOrder (fruitDraft [pendingLine apple 3]) ''p1'' 1 1]\<rparr>"
      and s = "shopState\<lparr>AppState.pendingOrders :=
           [newPendingOrder (fruitDraft [pendingLine apple 3]) ''p1'' 1 1]\<rparr>"
      and order = "fruitDraft [pendingLine apple 2, pendingLine rice 1]"
      and nid = "''n2''" and ?t1.0 = 7 and ?t2.0 = 8
      and m = "[pendingLine apple 3]" and ns = "[]" and n = "pendingLine apple 2"
      and k = "''apple''"]
    addPendingOrder_merge_or_create
    [where r = initialState and s = shopState
      and order = "fruitDraft [pendingLine apple 3]"
      and nid = "''p1''" and ?t1.0 = 1 and ?t2.0 = 1
      and m = "[pendingLine apple 3]" and ns = "[]" and n = "pendingLine rice 1"
      and k = "''apple''"]
    addPendingOrder_merge_or_create
    [where r = initialState and s = shopState
      and order = "fruitDraft [pendingLine apple 3]"
      and nid = "''p1''" and ?t1.0 = 1 and ?t2.0 = 1
      and m = "[pendingLine rice 1, pendingLine apple 3]"
      and ns = "[pendingLine apple 2, pendingLine rice 4, pendingLine apple 1]"
      and n = "pendingLine rice 1" and k = "''apple''"]
  by (simp add: initialState_def shopState_def fruitDraft_def pendingLine_def newPendingOrder_def
      openFor_def apple_def rice_def lineIds_def firstLineOf_def mergeItems_def mergeItem_def
      addPendingOrder_def updatePendingOrder_def spread_def itemsUpdate_def pick_def Let_def)

text \<open>
  Claim C1 as stated, for every call: two calls from one render. From a render without
  pending orders, the first call creates the order \<open>p1\<close>; the second call, for the same
  supplier and store tag, still reads the pending orders of its render, finds no open
  order and creates a second open order with another id. From a render of the state
  with \<open>p1\<close> (3 apples), a first call merges 2 apples into \<open>p1\<close>; a second call merges
  1 rice into the lines that its render has of \<open>p1\<close>, and the 2 apples are lost.
\<close>

theorem addPendingOrder_same_render_counterexample:
  "openFor (fruitDraft [pendingLine apple 2])
     (newPendingOrder (fruitDraft [pendingLine apple 3]) ''p1'' 1 1) \<and>
   addPendingOrder ''p1'' 1 1 (fruitDraft [pendingLine apple 3]) initialState initialState =
     (''p1'',
      initialState\<lparr>AppState.pendingOrders :=
        [newPendingOrder (fruitDraft [pendingLine apple 3]) ''p1'' 1 1]\<rparr>) \<and>
   addPendingOrder ''p2'' 2 2 (fruitDraft [pendingLine apple 2]) initialState
     (initialState\<lparr>AppState.pendingOrders :=
        [newPendingOrder (fruitDraft [pendingLine apple 3]) ''p1'' 1 1]\<rparr>) =
     (''p2'',
      initialState\<lparr>AppState.pendingOrders :=
        [newPendingOrder (fruitDraft [pendingLine apple 3]) ''p1'' 1 1,
         newPendingOrder (fruitDraft [pendingLine apple 2]) ''p2'' 2 2]\<rparr>) \<and>
   addPendingOrder ''n3'' 5 6 (fruitDraft [pendingLine rice 1])
     (initialState\<lparr>AppState.pendingOrders :=
        [newPendingOrder (fruitDraft [pendingLine apple 3]) ''p1'' 1 1]\<rparr>)
     (snd (addPendingOrder ''n2'' 3 4 (fruitDraft [pendingLine apple 2])
        (initialState\<lparr>AppState.pendingOrders :=
           [newPendingOrder (fruitDraft [pendingLine apple 3]) ''p1'' 1 1]\<rparr>)
        (initialState\<lparr>AppState.pendingOrders :=
           [newPendingOrder (fruitDraft [pendingLine apple 3]) ''p1'' 1 1]\<rparr>))) =
     (''p1'',
      initialState\<lparr>AppState.pendingOrders :=
        [newPendingOrder (fruitDraft [pendingLine apple 3, pendingLine rice 1]) ''p1'' 1 6]\<rparr>)"
  by (simp add: initialState_def fruitDraft_def pendingLine_def newPendingOrder_def
      openFor_def apple_def rice_def mergeItems_def mergeItem_def
      addPendingOrder_def updatePendingOrder_def spread_def itemsUpdate_def pick_def Let_def)

end
